theory Spec2Isabelle
  imports Complex_Main
begin

section \<open>Data model: data frames, columns, Python errors\<close>

text \<open>
  The service \<open>MLService\<close> of \<open>backend/modeling/services.py\<close> works on pandas data
  frames. A data frame is an ordered sequence of labelled columns; a column has a dtype and
  a list of cells. The dtypes are those of pandas columns: \<open>object\<close> and \<open>category\<close>
  (the two that the code tests by \<open>dtype in ['object', 'category']\<close>), the integer and
  floating-point kinds, and the kinds that are neither: \<open>bool\<close>, \<open>datetime64\<close>,
  \<open>timedelta64\<close> and the string dtype. A cell is the missing marker (NaN, None, NaT), a
  string, a finite number, one of the two infinities, a truth value, or a point or span of
  time in nanoseconds. Finite floating-point numbers are read as the rationals they denote.
\<close>

datatype dtype =
    Object | Category | Int64 | Float64 | BoolDtype | Datetime64 | Timedelta64 | StringDtype

datatype cell = NaN | Str string | Num rat | PosInf | NegInf | Truth bool | Time int

record series =
  dtype :: dtype
  cells :: "cell list"

type_synonym dataframe = "(string \<times> series) list"

text \<open>
  The exceptions of the code's own operations, each with its message, and
  \<open>LibraryError c\<close>: an exception of class \<open>c\<close> raised inside a library call.
\<close>

datatype error =
    KeyError string
  | AttributeError string
  | FileNotFoundError string
  | ValueError string
  | LibraryError string

text \<open>\<open>type(e).__name__\<close>, the class of a raised exception.\<close>

fun exception_class :: "error \<Rightarrow> string" where
  "exception_class (KeyError _) = ''KeyError''"
| "exception_class (AttributeError _) = ''AttributeError''"
| "exception_class (FileNotFoundError _) = ''FileNotFoundError''"
| "exception_class (ValueError _) = ''ValueError''"
| "exception_class (LibraryError name) = name"

definition columns :: "dataframe \<Rightarrow> string list" where
  "columns df = map fst df"

text \<open>
  \<open>df[name]\<close>: a missing label raises \<open>KeyError\<close>; a label carried by one column gives
  that column; a label carried by several columns gives a data frame, on which the
  attribute \<open>dtype\<close>, read next by \<open>detect_problem_type\<close> and by the fill loop of
  \<open>preprocess_data\<close>, does not exist. The steps after the fill loop are reached with
  distinct labels only.
\<close>

definition getitem :: "dataframe \<Rightarrow> string \<Rightarrow> error + series" where
  "getitem df name =
     (case filter (\<lambda>c. fst c = name) df of
        [] \<Rightarrow> Inl (KeyError name)
      | [c] \<Rightarrow> Inr (snd c)
      | _ \<Rightarrow> Inl (AttributeError ''dtype''))"

definition is_categorical :: "dtype \<Rightarrow> bool" where
  "is_categorical d = (d = Object \<or> d = Category)"

text \<open>
  \<open>select_dtypes(include=[np.number])\<close> selects by the numpy scalar hierarchy, in which
  \<open>timedelta64\<close> stands under \<open>np.signedinteger\<close>; \<open>bool\<close>, \<open>datetime64\<close> and the
  string dtype are outside \<open>np.number\<close>.
\<close>

definition is_number :: "dtype \<Rightarrow> bool" where
  "is_number d = (d = Int64 \<or> d = Float64 \<or> d = Timedelta64)"

section \<open>Problem-type detection\<close>

text \<open>
  \<open>Series.unique()\<close>: the values in order of first appearance, each once; the missing
  marker is a value like any other and appears once when the column has a missing entry.
\<close>

fun unique_from :: "'a list \<Rightarrow> 'a list \<Rightarrow> 'a list" where
  "unique_from seen [] = []"
| "unique_from seen (x # xs) =
     (if x \<in> set seen then unique_from seen xs else x # unique_from (x # seen) xs)"

definition unique :: "'a list \<Rightarrow> 'a list" where
  "unique xs = unique_from [] xs"

definition detect_problem_type :: "string \<Rightarrow> dataframe \<Rightarrow> error + string" where
  "detect_problem_type target_column df =
     (case getitem df target_column of
        Inl e \<Rightarrow> Inl e
      | Inr target_data \<Rightarrow>
          if dtype target_data \<in> {Object, Category} then Inr ''classification''
          else if length (unique (cells target_data)) \<le> 10 then Inr ''classification''
          else Inr ''regression'')"

section \<open>Preprocessing\<close>

text \<open>
  The value-level calls into pandas and scikit-learn that \<open>preprocess_data\<close> makes are
  parameters of the model: \<open>Series.mode()\<close>, \<open>Series.median()\<close> (which raises on a
  column of strings), \<open>fillna\<close> (which may refuse a fill value: a categorical column
  accepts only its categories),
  \<open>astype(str)\<close>, \<open>LabelEncoder.fit_transform\<close> and \<open>StandardScaler.fit_transform\<close>
  (which may reject its input). Which columns each of them is applied to is decided by the
  code and is modelled below.
\<close>

record ('le, 'sc) library =
  mode :: "series \<Rightarrow> cell list"
  median :: "series \<Rightarrow> error + cell"
  fillna :: "series \<Rightarrow> cell \<Rightarrow> error + series"
  astype_str :: "series \<Rightarrow> string list"
  le_fit_transform :: "string list \<Rightarrow> 'le \<times> int list"
  sc_fit_transform :: "series list \<Rightarrow> error + 'sc \<times> series list"

definition isnull :: "cell \<Rightarrow> bool" where
  "isnull c = (c = NaN)"

text \<open>
  \<open>df.isnull().mean()\<close>: per column the float64 quotient of the number of missing cells by
  the number of rows, and NaN (here \<open>None\<close>) for a frame without rows. \<open>fl\<close> is the
  rounding of the exact quotient to float64.
\<close>

definition missing_fraction :: "(rat \<Rightarrow> rat) \<Rightarrow> series \<Rightarrow> rat option" where
  "missing_fraction fl s =
     (if cells s = [] then None
      else Some (fl (of_nat (length (filter isnull (cells s))) / of_nat (length (cells s)))))"

text \<open>\<open>missing_fraction > missing_threshold\<close>: a comparison with NaN is false.\<close>

definition exceeds :: "rat option \<Rightarrow> rat \<Rightarrow> bool" where
  "exceeds f t = (case f of None \<Rightarrow> False | Some q \<Rightarrow> q > t)"

text \<open>
  \<open>missing_fraction[missing_fraction > missing_threshold].index.tolist()\<close>, then
  \<open>list.remove\<close> of the target, which deletes the first occurrence.
\<close>

definition cols_to_drop :: "(rat \<Rightarrow> rat) \<Rightarrow> dataframe \<Rightarrow> string \<Rightarrow> rat \<Rightarrow> string list" where
  "cols_to_drop fl df target_column missing_threshold =
     (let cols = map fst (filter (\<lambda>c. exceeds (missing_fraction fl (snd c)) missing_threshold) df)
      in if target_column \<in> set cols then remove1 target_column cols else cols)"

text \<open>\<open>df.drop(columns=cols)\<close>: every column carrying one of the labels goes.\<close>

definition drop_columns :: "dataframe \<Rightarrow> string list \<Rightarrow> dataframe" where
  "drop_columns df cols = filter (\<lambda>c. fst c \<notin> set cols) df"

definition drop_missing :: "(rat \<Rightarrow> rat) \<Rightarrow> dataframe \<Rightarrow> string \<Rightarrow> rat \<Rightarrow> dataframe" where
  "drop_missing fl df target_column missing_threshold =
     drop_columns df (cols_to_drop fl df target_column missing_threshold)"

text \<open>\<open>df[col] = s\<close>: replaces the column of that label, or appends a new one.\<close>

definition setitem :: "dataframe \<Rightarrow> string \<Rightarrow> series \<Rightarrow> dataframe" where
  "setitem df col s =
     (if col \<in> set (columns df) then map (\<lambda>c. if fst c = col then (col, s) else c) df
      else df @ [(col, s)])"

definition fill_value :: "('le, 'sc) library \<Rightarrow> series \<Rightarrow> error + cell" where
  "fill_value lib s =
     (if dtype s \<in> {Object, Category}
      then (case mode lib s of [] \<Rightarrow> Inr (Str ''Unknown'') | m # _ \<Rightarrow> Inr m)
      else median lib s)"

fun fill_missing :: "('le, 'sc) library \<Rightarrow> string list \<Rightarrow> dataframe \<Rightarrow> error + dataframe" where
  "fill_missing lib [] df = Inr df"
| "fill_missing lib (col # cols) df =
     (case getitem df col of
        Inl e \<Rightarrow> Inl e
      | Inr s \<Rightarrow>
          (case fill_value lib s of
             Inl e \<Rightarrow> Inl e
           | Inr v \<Rightarrow>
               (case fillna lib s v of
                  Inl e \<Rightarrow> Inl e
                | Inr s' \<Rightarrow> fill_missing lib cols (setitem df col s'))))"

definition select_dtypes :: "(dtype \<Rightarrow> bool) \<Rightarrow> dataframe \<Rightarrow> string list" where
  "select_dtypes include df = map fst (filter (\<lambda>c. include (dtype (snd c))) df)"

text \<open>
  \<open>d[k] = v\<close> on a dict, kept as an association list in insertion order: a key that is
  present keeps its position and takes the new value, a new key goes to the end.
\<close>

definition dict_set :: "('k \<times> 'v) list \<Rightarrow> 'k \<Rightarrow> 'v \<Rightarrow> ('k \<times> 'v) list" where
  "dict_set d k v =
     (if k \<in> fst ` set d then map (\<lambda>e. if fst e = k then (k, v) else e) d else d @ [(k, v)])"

text \<open>
  The encoding loop: a listed column is encoded when it is in the frame and is not the
  target; the encoded column holds the integer codes.
\<close>

fun encode_categoricals ::
  "('le, 'sc) library \<Rightarrow> string \<Rightarrow> string list \<Rightarrow> dataframe \<times> (string \<times> 'le) list
     \<Rightarrow> error + dataframe \<times> (string \<times> 'le) list" where
  "encode_categoricals lib target_column [] acc = Inr acc"
| "encode_categoricals lib target_column (col # cols) (df, label_encoders) =
     (if col \<in> set (columns df) \<and> col \<noteq> target_column
      then (case getitem df col of
              Inl e \<Rightarrow> Inl e
            | Inr s \<Rightarrow>
                (let (le, codes) = le_fit_transform lib (astype_str lib s)
                 in encode_categoricals lib target_column cols
                      (setitem df col \<lparr>dtype = Int64, cells = map (\<lambda>k. Num (of_int k)) codes\<rparr>,
                       dict_set label_encoders col le)))
      else encode_categoricals lib target_column cols (df, label_encoders))"

text \<open>
  The columns handed to infinite-value replacement and to the scaler: the caller's list as
  it is, or else the numeric columns of the frame without the target.
\<close>

definition numerical_selection :: "dataframe \<Rightarrow> string \<Rightarrow> string list option \<Rightarrow> string list" where
  "numerical_selection df target_column numerical_columns =
     (case numerical_columns of
        None \<Rightarrow>
          (let nums = select_dtypes is_number df
           in if target_column \<in> set nums then remove1 target_column nums else nums)
      | Some cols \<Rightarrow> cols)"

text \<open>\<open>df[cols]\<close> for a list of labels: \<open>KeyError\<close> when one of them is not in the frame.\<close>

fun getitems :: "dataframe \<Rightarrow> string list \<Rightarrow> error + series list" where
  "getitems df [] = Inr []"
| "getitems df (col # cols) =
     (case getitem df col of
        Inl e \<Rightarrow> Inl e
      | Inr s \<Rightarrow> (case getitems df cols of Inl e \<Rightarrow> Inl e | Inr ss \<Rightarrow> Inr (s # ss)))"

text \<open>
  \<open>df[cols] = values\<close> for a list of labels of the frame: one column of values per label;
  a label listed twice, or values of another width, raise \<open>ValueError\<close>.
\<close>

definition setitems :: "dataframe \<Rightarrow> string list \<Rightarrow> series list \<Rightarrow> error + dataframe" where
  "setitems df cols ss =
     (if \<not> distinct cols \<or> length ss \<noteq> length cols
      then Inl (ValueError ''Columns must be same length as key'')
      else Inr (fold (\<lambda>(col, s) d. setitem d col s) (zip cols ss) df))"

definition replace_inf :: "series \<Rightarrow> series" where
  "replace_inf s = s\<lparr>cells := map (\<lambda>c. if c = PosInf \<or> c = NegInf then NaN else c) (cells s)\<rparr>"

fun fillna_all :: "('le, 'sc) library \<Rightarrow> series list \<Rightarrow> cell \<Rightarrow> error + series list" where
  "fillna_all lib [] v = Inr []"
| "fillna_all lib (s # ss) v =
     (case fillna lib s v of
        Inl e \<Rightarrow> Inl e
      | Inr s' \<Rightarrow> (case fillna_all lib ss v of Inl e \<Rightarrow> Inl e | Inr ss' \<Rightarrow> Inr (s' # ss')))"

text \<open>
  The fitted scaler is returned with the labels it was fitted on (\<open>feature_names_in_\<close>);
  \<open>None\<close> is the scaler that was never fitted.
\<close>

definition scale_numericals ::
  "('le, 'sc) library \<Rightarrow> dataframe \<Rightarrow> string list \<Rightarrow> error + dataframe \<times> (string list \<times> 'sc) option" where
  "scale_numericals lib df numerical_columns =
     (if numerical_columns = [] then Inr (df, None)
      else
        (case getitems df numerical_columns of
           Inl e \<Rightarrow> Inl e
         | Inr ss \<Rightarrow>
             (case fillna_all lib (map replace_inf ss) (Num 0) of
                Inl e \<Rightarrow> Inl e
              | Inr ss' \<Rightarrow>
                  (case setitems df numerical_columns ss' of
                     Inl e \<Rightarrow> Inl e
                   | Inr df' \<Rightarrow>
                       (case getitems df' numerical_columns of
                          Inl e \<Rightarrow> Inl e
                        | Inr ss'' \<Rightarrow>
                            (case sc_fit_transform lib ss'' of
                               Inl e \<Rightarrow> Inl e
                             | Inr (sc, scaled) \<Rightarrow>
                                 (case setitems df' numerical_columns scaled of
                                    Inl e \<Rightarrow> Inl e
                                  | Inr df'' \<Rightarrow> Inr (df'', Some (numerical_columns, sc)))))))))"

definition preprocess_data ::
  "('le, 'sc) library \<Rightarrow> (rat \<Rightarrow> rat) \<Rightarrow> dataframe \<Rightarrow> string \<Rightarrow> string list option
     \<Rightarrow> string list option \<Rightarrow> rat
     \<Rightarrow> error + dataframe \<times> (string \<times> 'le) list \<times> (string list \<times> 'sc) option" where
  "preprocess_data lib fl df target_column categorical_columns numerical_columns missing_threshold =
     (let df1 = drop_missing fl df target_column missing_threshold in
      case fill_missing lib (columns df1) df1 of
        Inl e \<Rightarrow> Inl e
      | Inr df2 \<Rightarrow>
          (let cats = (case categorical_columns of
                         None \<Rightarrow> select_dtypes is_categorical df2
                       | Some cols \<Rightarrow> cols) in
           case encode_categoricals lib target_column cats (df2, []) of
             Inl e \<Rightarrow> Inl e
           | Inr (df3, label_encoders) \<Rightarrow>
               (case scale_numericals lib df3 (numerical_selection df3 target_column numerical_columns) of
                  Inl e \<Rightarrow> Inl e
                | Inr (df4, scaler) \<Rightarrow> Inr (df4, label_encoders, scaler))))"

section \<open>Model recommendation\<close>

text \<open>A dict with string keys is an association list; \<open>d[k]\<close> raises \<open>KeyError\<close> on a missing key.\<close>

definition dict_getitem :: "(string \<times> 'v) list \<Rightarrow> string \<Rightarrow> error + 'v" where
  "dict_getitem d k = (case map_of d k of None \<Rightarrow> Inl (KeyError k) | Some v \<Rightarrow> Inr v)"

definition suggestions :: "(string \<times> (string \<times> string list) list) list" where
  "suggestions =
     [(''classification'',
        [(''small_dataset'', [''logistic_regression'', ''decision_tree'', ''knn'']),
         (''medium_dataset'', [''random_forest'', ''xgboost'', ''lightgbm'', ''svm'']),
         (''large_dataset'', [''xgboost'', ''lightgbm'', ''catboost'', ''gradient_boosting'']),
         (''high_dimensions'', [''logistic_regression'', ''svm'', ''random_forest'']),
         (''low_dimensions'', [''knn'', ''decision_tree'', ''ada_boost''])]),
      (''regression'',
        [(''small_dataset'', [''linear_regression'', ''ridge'', ''lasso'']),
         (''medium_dataset'', [''random_forest'', ''xgboost'', ''lightgbm'']),
         (''large_dataset'', [''xgboost'', ''lightgbm'', ''catboost'']),
         (''high_dimensions'', [''ridge'', ''lasso'', ''elastic_net'']),
         (''low_dimensions'', [''linear_regression'', ''svm'', ''knn''])])]"

definition size_category :: "int \<Rightarrow> string" where
  "size_category dataset_size =
     (if dataset_size < 1000 then ''small_dataset''
      else if dataset_size < 10000 then ''medium_dataset''
      else ''large_dataset'')"

definition dim_category :: "int \<Rightarrow> string" where
  "dim_category feature_count =
     (if feature_count > 50 then ''high_dimensions'' else ''low_dimensions'')"

text \<open>
  \<open>list(set(xs))\<close>: the elements of \<open>xs\<close>, each once. Python leaves the order of the
  result open; the model lists them in order of first appearance, and the statements below
  speak of the elements and of their being distinct only.
\<close>

definition list_set :: "'a list \<Rightarrow> 'a list" where
  "list_set xs = unique xs"

definition suggest_models :: "string \<Rightarrow> int \<Rightarrow> int \<Rightarrow> error + string list" where
  "suggest_models problem_type dataset_size feature_count =
     (case dict_getitem suggestions problem_type of
        Inl e \<Rightarrow> Inl e
      | Inr table \<Rightarrow>
          (case dict_getitem table (size_category dataset_size) of
             Inl e \<Rightarrow> Inl e
           | Inr by_size \<Rightarrow>
               (case dict_getitem table (dim_category feature_count) of
                  Inl e \<Rightarrow> Inl e
                | Inr by_dim \<Rightarrow> Inr (list_set (by_size @ by_dim)))))"

text \<open>
  The advisory collaborator \<open>self.model_selector.get_intelligent_suggestions\<close> is a
  parameter: it returns a suggestion, or raises an exception (\<open>Inl\<close>, with the exception's
  text). The handler is \<open>except Exception\<close>. What the function prints is returned as the
  first component of the result.
\<close>

record suggestion =
  recommended_models :: "string list"
  analysis :: "(string \<times> string) list"
  evaluation :: "(string \<times> string) list"
  best_model :: string
  confidence :: rat

text \<open>\<open>len(df)\<close>, the number of rows.\<close>

definition len :: "dataframe \<Rightarrow> int" where
  "len df = (case df of [] \<Rightarrow> 0 | c # _ \<Rightarrow> int (length (cells (snd c))))"

definition get_intelligent_model_suggestions ::
  "(dataframe \<Rightarrow> string \<Rightarrow> string + suggestion) \<Rightarrow> dataframe \<Rightarrow> string
     \<Rightarrow> string list \<times> (error + suggestion)" where
  "get_intelligent_model_suggestions model_selector df target_column =
     (case model_selector df target_column of
        Inr r \<Rightarrow> ([], Inr r)
      | Inl e \<Rightarrow>
          (let printed = [''Error in intelligent model selection: '' @ e] in
           case detect_problem_type target_column df of
             Inl err \<Rightarrow> (printed, Inl err)
           | Inr problem_type \<Rightarrow>
               (case suggest_models problem_type (len df) (int (length (columns df)) - 1) of
                  Inl err \<Rightarrow> (printed, Inl err)
                | Inr ms \<Rightarrow>
                    (printed,
                     Inr \<lparr>recommended_models = ms,
                          analysis = [(''error'', ''Intelligent selection failed, using fallback'')],
                          evaluation = [],
                          best_model = ''random_forest'',
                          confidence = 1 / 2\<rparr>))))"

section \<open>Model catalog and training\<close>

datatype model_class =
    RandomForestClassifier | XGBClassifier | LGBMClassifier | CatBoostClassifier
  | LogisticRegression | SVC | KNeighborsClassifier | DecisionTreeClassifier
  | GradientBoostingClassifier | AdaBoostClassifier
  | RandomForestRegressor | XGBRegressor | LGBMRegressor | CatBoostRegressor
  | LinearRegression | Ridge | Lasso | ElasticNet | SVR | KNeighborsRegressor
  | DecisionTreeRegressor | GradientBoostingRegressor

definition models :: "(string \<times> (string \<times> model_class) list) list" where
  "models =
     [(''classification'',
        [(''random_forest'', RandomForestClassifier),
         (''xgboost'', XGBClassifier),
         (''lightgbm'', LGBMClassifier),
         (''catboost'', CatBoostClassifier),
         (''logistic_regression'', LogisticRegression),
         (''svm'', SVC),
         (''knn'', KNeighborsClassifier),
         (''decision_tree'', DecisionTreeClassifier),
         (''gradient_boosting'', GradientBoostingClassifier),
         (''ada_boost'', AdaBoostClassifier)]),
      (''regression'',
        [(''random_forest'', RandomForestRegressor),
         (''xgboost'', XGBRegressor),
         (''lightgbm'', LGBMRegressor),
         (''catboost'', CatBoostRegressor),
         (''linear_regression'', LinearRegression),
         (''ridge'', Ridge),
         (''lasso'', Lasso),
         (''elastic_net'', ElasticNet),
         (''svm'', SVR),
         (''knn'', KNeighborsRegressor),
         (''decision_tree'', DecisionTreeRegressor),
         (''gradient_boosting'', GradientBoostingRegressor)])]"

datatype pval = PInt int | PFloat rat

type_synonym params = "(string \<times> pval) list"

definition default_params :: "(string \<times> params) list" where
  "default_params =
     [(''random_forest'', [(''n_estimators'', PInt 100), (''random_state'', PInt 42)]),
      (''xgboost'', [(''n_estimators'', PInt 100), (''random_state'', PInt 42)]),
      (''lightgbm'', [(''n_estimators'', PInt 100), (''random_state'', PInt 42)]),
      (''catboost'', [(''iterations'', PInt 100), (''random_state'', PInt 42)]),
      (''logistic_regression'', [(''random_state'', PInt 42)]),
      (''svm'', [(''random_state'', PInt 42)]),
      (''knn'', [(''n_neighbors'', PInt 5)]),
      (''decision_tree'', [(''random_state'', PInt 42)]),
      (''gradient_boosting'', [(''n_estimators'', PInt 100), (''random_state'', PInt 42)]),
      (''ada_boost'', [(''n_estimators'', PInt 100), (''random_state'', PInt 42)]),
      (''linear_regression'', []),
      (''ridge'', [(''alpha'', PFloat 1)]),
      (''lasso'', [(''alpha'', PFloat 1)]),
      (''elastic_net'', [(''alpha'', PFloat 1), (''l1_ratio'', PFloat (1 / 2))])]"

text \<open>\<open>d.get(k, default)\<close>.\<close>

definition dict_get :: "(string \<times> 'v) list \<Rightarrow> string \<Rightarrow> 'v \<Rightarrow> 'v" where
  "dict_get d k dflt = (case map_of d k of None \<Rightarrow> dflt | Some v \<Rightarrow> v)"

text \<open>
  The estimators are a parameter: \<open>construct\<close> is the call \<open>model_class(**params)\<close>, which
  may reject the keyword arguments; \<open>fit\<close> is \<open>model.fit(X, y)\<close>, which may reject the data;
  \<open>cross_val_mean\<close> is \<open>cross_val_score(model, X, y, cv=3).mean()\<close>.
\<close>

record ('m, 'x, 'y) estimators =
  construct :: "model_class \<Rightarrow> params \<Rightarrow> error + 'm"
  fit :: "'m \<Rightarrow> 'x \<Rightarrow> 'y \<Rightarrow> error + 'm"
  cross_val_mean :: "'m \<Rightarrow> 'x \<Rightarrow> 'y \<Rightarrow> error + rat"

text \<open>
  \<open>train_model\<close>; \<open>start_time\<close> and \<open>end_time\<close> are the two readings of the clock, in
  seconds.
\<close>

definition train_model ::
  "('m, 'x, 'y) estimators \<Rightarrow> rat \<Rightarrow> rat \<Rightarrow> string \<Rightarrow> 'x \<Rightarrow> 'y \<Rightarrow> string \<Rightarrow> params option
     \<Rightarrow> error + 'm \<times> rat" where
  "train_model est start_time end_time model_name X_train y_train problem_type hyperparameters =
     (let hyperparameters' =
            (case hyperparameters of
               None \<Rightarrow> dict_get default_params model_name []
             | Some h \<Rightarrow> h) in
      case dict_getitem models problem_type of
        Inl e \<Rightarrow> Inl e
      | Inr catalog \<Rightarrow>
          (case dict_getitem catalog model_name of
             Inl e \<Rightarrow> Inl e
           | Inr model_class \<Rightarrow>
               (case construct est model_class hyperparameters' of
                  Inl e \<Rightarrow> Inl e
                | Inr model \<Rightarrow>
                    (case fit est model X_train y_train of
                       Inl e \<Rightarrow> Inl e
                     | Inr fitted \<Rightarrow> Inr (fitted, end_time - start_time)))))"

section \<open>Hyperparameter optimization\<close>

text \<open>
  The optuna study is modelled by what the code relies on: \<open>study.optimize\<close> calls the
  objective once per trial, in sequence, and lets an exception of the objective pass;
  a trial records the parameters it was asked to suggest and the objective's value;
  \<open>study.best_params\<close> are the parameters of the first trial of greatest value, and a
  \<open>ValueError\<close> when there is no trial. The sampler is a parameter; it sees the trials
  made so far.
\<close>

record frozen_trial =
  trial_params :: params
  trial_value :: rat

record sampler =
  suggest_int :: "frozen_trial list \<Rightarrow> string \<Rightarrow> int \<Rightarrow> int \<Rightarrow> int"
  suggest_float :: "frozen_trial list \<Rightarrow> string \<Rightarrow> rat \<Rightarrow> rat \<Rightarrow> rat"

text \<open>The parameters a trial suggests, per model family; \<open>None\<close> is the final \<open>else\<close>.\<close>

definition search_space :: "sampler \<Rightarrow> frozen_trial list \<Rightarrow> string \<Rightarrow> params option" where
  "search_space smp history model_name =
     (if model_name = ''random_forest'' then
        Some [(''n_estimators'', PInt (suggest_int smp history ''n_estimators'' 50 300)),
              (''max_depth'', PInt (suggest_int smp history ''max_depth'' 3 20)),
              (''min_samples_split'', PInt (suggest_int smp history ''min_samples_split'' 2 10))]
      else if model_name = ''xgboost'' then
        Some [(''n_estimators'', PInt (suggest_int smp history ''n_estimators'' 50 300)),
              (''max_depth'', PInt (suggest_int smp history ''max_depth'' 3 10)),
              (''learning_rate'', PFloat (suggest_float smp history ''learning_rate'' (1 / 100) (3 / 10)))]
      else if model_name = ''lightgbm'' then
        Some [(''n_estimators'', PInt (suggest_int smp history ''n_estimators'' 50 300)),
              (''max_depth'', PInt (suggest_int smp history ''max_depth'' 3 10)),
              (''learning_rate'', PFloat (suggest_float smp history ''learning_rate'' (1 / 100) (3 / 10)))]
      else None)"

text \<open>
  One call of the objective: the finished trial, and the models handed to
  \<open>cross_val_score\<close> (which fits them) during the call.
\<close>

definition objective ::
  "('m, 'x, 'y) estimators \<Rightarrow> sampler \<Rightarrow> string \<Rightarrow> 'x \<Rightarrow> 'y \<Rightarrow> string \<Rightarrow> frozen_trial list
     \<Rightarrow> error + frozen_trial \<times> (model_class \<times> params) list" where
  "objective est smp model_name X_train y_train problem_type history =
     (case search_space smp history model_name of
        None \<Rightarrow> Inr (\<lparr>trial_params = [], trial_value = 0\<rparr>, [])
      | Some suggested \<Rightarrow>
          (let params = suggested @ [(''random_state'', PInt 42)] in
           case dict_getitem models problem_type of
             Inl e \<Rightarrow> Inl e
           | Inr catalog \<Rightarrow>
               (case dict_getitem catalog model_name of
                  Inl e \<Rightarrow> Inl e
                | Inr model_class \<Rightarrow>
                    (case construct est model_class params of
                       Inl e \<Rightarrow> Inl e
                     | Inr model \<Rightarrow>
                         (case cross_val_mean est model X_train y_train of
                            Inl e \<Rightarrow> Inl e
                          | Inr score \<Rightarrow>
                              Inr (\<lparr>trial_params = suggested, trial_value = score\<rparr>,
                                   [(model_class, params)]))))))"

fun study_optimize ::
  "('m, 'x, 'y) estimators \<Rightarrow> sampler \<Rightarrow> string \<Rightarrow> 'x \<Rightarrow> 'y \<Rightarrow> string \<Rightarrow> nat
     \<Rightarrow> frozen_trial list \<times> (model_class \<times> params) list
     \<Rightarrow> error + frozen_trial list \<times> (model_class \<times> params) list" where
  "study_optimize est smp model_name X_train y_train problem_type 0 acc = Inr acc"
| "study_optimize est smp model_name X_train y_train problem_type (Suc n) (history, fitted) =
     (case objective est smp model_name X_train y_train problem_type history of
        Inl e \<Rightarrow> Inl e
      | Inr (t, ms) \<Rightarrow>
          study_optimize est smp model_name X_train y_train problem_type n
            (history @ [t], fitted @ ms))"

fun best_trial :: "frozen_trial list \<Rightarrow> frozen_trial option" where
  "best_trial [] = None"
| "best_trial (t # ts) =
     Some (foldl (\<lambda>best u. if trial_value u > trial_value best then u else best) t ts)"

definition optimize_hyperparameters ::
  "('m, 'x, 'y) estimators \<Rightarrow> sampler \<Rightarrow> string \<Rightarrow> 'x \<Rightarrow> 'y \<Rightarrow> string \<Rightarrow> int
     \<Rightarrow> error + params" where
  "optimize_hyperparameters est smp model_name X_train y_train problem_type n_trials =
     (case study_optimize est smp model_name X_train y_train problem_type (nat n_trials) ([], []) of
        Inl e \<Rightarrow> Inl e
      | Inr (history, fitted) \<Rightarrow>
          (case best_trial history of
             None \<Rightarrow> Inl (ValueError ''No trials are completed yet.'')
           | Some t \<Rightarrow> Inr (trial_params t)))"

section \<open>Feature importance\<close>

text \<open>
  Of a fitted model the function reads two optional attributes: \<open>feature_importances_\<close>,
  a vector, and \<open>coef_\<close>, a vector or (for classifiers) a matrix with one row per class.
  Iterating over a matrix yields its rows, so a weight is a number or a row.
\<close>

datatype ndarray = Vector "rat list" | Matrix "rat list list"

datatype weight = Scalar rat | Row "rat list"

record model_attrs =
  feature_importances :: "rat list option"
  coef :: "ndarray option"

definition np_abs :: "ndarray \<Rightarrow> ndarray" where
  "np_abs a = (case a of Vector v \<Rightarrow> Vector (map abs v) | Matrix rows \<Rightarrow> Matrix (map (map abs) rows))"

definition items_of :: "ndarray \<Rightarrow> weight list" where
  "items_of a = (case a of Vector v \<Rightarrow> map Scalar v | Matrix rows \<Rightarrow> map Row rows)"

text \<open>\<open>dict(pairs)\<close>: the pairs are stored one after the other.\<close>

definition dict_of :: "('k \<times> 'v) list \<Rightarrow> ('k \<times> 'v) list" where
  "dict_of pairs = foldl (\<lambda>d e. dict_set d (fst e) (snd e)) [] pairs"

text \<open>
  The sort key \<open>x[1]\<close>: rows of one element compare like numbers; comparing other rows has
  no truth value and raises \<open>ValueError\<close>.
\<close>

fun sort_key :: "weight \<Rightarrow> rat option" where
  "sort_key (Scalar r) = Some r"
| "sort_key (Row [r]) = Some r"
| "sort_key (Row _) = None"

fun insert_desc :: "('k \<times> rat \<times> weight) \<Rightarrow> ('k \<times> rat \<times> weight) list \<Rightarrow> ('k \<times> rat \<times> weight) list" where
  "insert_desc x [] = [x]"
| "insert_desc x (y # ys) =
     (if fst (snd y) \<ge> fst (snd x) then y # insert_desc x ys else x # y # ys)"

text \<open>\<open>sorted(items, key=lambda x: x[1], reverse=True)\<close>: stable, greatest weight first.\<close>

definition sorted_desc :: "('k \<times> weight) list \<Rightarrow> error + ('k \<times> weight) list" where
  "sorted_desc items =
     (if length items \<le> 1 then Inr items
      else if None \<in> set (map (\<lambda>e. sort_key (snd e)) items)
      then Inl (ValueError ''The truth value of an array with more than one element is ambiguous'')
      else Inr (map (\<lambda>e. (fst e, snd (snd e)))
                  (foldl (\<lambda>acc e. insert_desc e acc) []
                     (map (\<lambda>e. (fst e, (case sort_key (snd e) of Some r \<Rightarrow> r | None \<Rightarrow> 0), snd e))
                        items))))"

definition get_feature_importance ::
  "model_attrs \<Rightarrow> 'k list \<Rightarrow> error + ('k \<times> weight) list" where
  "get_feature_importance model feature_names =
     (case feature_importances model of
        Some v \<Rightarrow>
          (case sorted_desc (dict_of (zip feature_names (map Scalar v))) of
             Inl e \<Rightarrow> Inl e
           | Inr sorted_items \<Rightarrow> Inr (dict_of sorted_items))
      | None \<Rightarrow>
          (case coef model of
             Some c \<Rightarrow>
               (case sorted_desc (dict_of (zip feature_names (items_of (np_abs c)))) of
                  Inl e \<Rightarrow> Inl e
                | Inr sorted_items \<Rightarrow> Inr (dict_of sorted_items))
           | None \<Rightarrow> Inr []))"

section \<open>Model artifacts\<close>

text \<open>\<open>os.path.dirname\<close> (POSIX): the part before the last slash, without trailing slashes
  unless it consists of slashes only.\<close>

definition dirname :: "string \<Rightarrow> string" where
  "dirname p =
     (let head = rev (dropWhile (\<lambda>c. c \<noteq> CHR ''/'') (rev p))
      in if head \<noteq> [] \<and> head \<noteq> replicate (length head) (CHR ''/'')
         then rev (dropWhile (\<lambda>c. c = CHR ''/'') (rev head))
         else head)"

text \<open>
  The file system and joblib are parameters. \<open>os.makedirs(name, exist_ok=True)\<close> on the
  empty name fails before it reaches them: \<open>mkdir('')\<close> reports that there is no such
  file or directory, and \<open>exist_ok\<close> forgives an existing directory only.
\<close>

record ('fs, 'm) storage =
  os_makedirs :: "'fs \<Rightarrow> string \<Rightarrow> error + 'fs"
  joblib_dump :: "'fs \<Rightarrow> 'm \<Rightarrow> string \<Rightarrow> error + 'fs"
  joblib_load :: "'fs \<Rightarrow> string \<Rightarrow> error + 'm"

definition makedirs :: "('fs, 'm) storage \<Rightarrow> 'fs \<Rightarrow> string \<Rightarrow> error + 'fs" where
  "makedirs st fs name =
     (if name = [] then Inl (FileNotFoundError []) else os_makedirs st fs name)"

definition save_model :: "('fs, 'm) storage \<Rightarrow> 'fs \<Rightarrow> 'm \<Rightarrow> string \<Rightarrow> error + 'fs" where
  "save_model st fs model filepath =
     (case makedirs st fs (dirname filepath) of
        Inl e \<Rightarrow> Inl e
      | Inr fs' \<Rightarrow> joblib_dump st fs' model filepath)"

definition load_model :: "('fs, 'm) storage \<Rightarrow> 'fs \<Rightarrow> string \<Rightarrow> error + 'm" where
  "load_model st fs filepath = joblib_load st fs filepath"

section \<open>Properties\<close>

lemma set_unique_from: "set (unique_from seen xs) = set xs - set seen"
  by (induction xs arbitrary: seen) auto

lemma distinct_unique_from: "distinct (unique_from seen xs)"
  by (induction xs arbitrary: seen) (auto simp: set_unique_from)

lemma length_unique: "length (unique xs) = card (set xs)"
proof -
  have "card (set (unique xs)) = length (unique xs)"
    unfolding unique_def by (rule distinct_card) (rule distinct_unique_from)
  moreover have "set (unique xs) = set xs"
    by (simp add: unique_def set_unique_from)
  ultimately show ?thesis by simp
qed


lemma filter_label_distinct:
  "distinct (map fst df) \<Longrightarrow> (name, s) \<in> set df \<Longrightarrow> filter (\<lambda>c. fst c = name) df = [(name, s)]"
proof (induction df)
  case Nil
  then show ?case by simp
next
  case (Cons c df)
  from Cons.prems(1) have notin: "fst c \<notin> fst ` set df" and dist: "distinct (map fst df)"
    by simp_all
  show ?case
  proof (cases "fst c = name")
    case True
    with notin have none: "\<forall>c' \<in> set df. fst c' \<noteq> name" by (force simp: image_iff)
    with Cons.prems(2) have "c = (name, s)" by auto
    moreover from none have "filter (\<lambda>c. fst c = name) df = []"
      by (simp add: filter_empty_conv)
    ultimately show ?thesis by simp
  next
    case False
    with Cons.prems(2) have "(name, s) \<in> set df" by auto
    with Cons.IH dist False show ?thesis by simp
  qed
qed

lemma getitem_present:
  assumes "distinct (columns df)" and "target_column \<in> set (columns df)"
  shows "\<exists>s. (target_column, s) \<in> set df \<and> getitem df target_column = Inr s"
proof -
  from assms(2) obtain s where s: "(target_column, s) \<in> set df"
    by (auto simp: columns_def)
  with assms(1) have "filter (\<lambda>c. fst c = target_column) df = [(target_column, s)]"
    by (simp add: columns_def filter_label_distinct)
  then have "getitem df target_column = Inr s" by (simp add: getitem_def)
  with s show ?thesis by blast
qed


text \<open>
  Claim C2, as amended. The code does not ask whether the target is numeric: it asks
  whether its dtype is \<open>object\<close> or \<open>category\<close>. For a target that names a column,
  \<open>detect_problem_type\<close> answers "classification" when the dtype is \<open>object\<close> or
  \<open>category\<close>, or when the column, of any other dtype, has at most 10 distinct values,
  and "regression" otherwise. A numeric column with exactly 10 distinct values is a
  classification target and one with exactly 11 is a regression target. The distinct
  values are those of \<open>unique()\<close>, the set of the column's cells.
\<close>

theorem detect_problem_type_rule:
  assumes "getitem df target_column = Inr target_data"
  shows "detect_problem_type target_column df =
           Inr (if dtype target_data \<in> {Object, Category} \<or> card (set (cells target_data)) \<le> 10
                then ''classification'' else ''regression'')"
proof (cases "dtype target_data \<in> {Object, Category}")
  case True
  with assms show ?thesis by (simp add: detect_problem_type_def)
next
  case False
  have "length (unique (cells target_data)) = card (set (cells target_data))"
    by (rule length_unique)
  with assms False show ?thesis by (simp add: detect_problem_type_def)
qed

theorem detect_problem_type_rule_witness:
  "detect_problem_type ''y''
     [(''x'', \<lparr>dtype = Object,
               cells = [Str ''a'', Str ''b'', Str ''a'', Str ''b'', Str ''a'', Str ''b'', Str ''a'',
                        Str ''b'', Str ''a'', Str ''b'', Str ''a'']\<rparr>),
      (''y'', \<lparr>dtype = Int64,
               cells = [Num 0, Num 1, Num 2, Num 3, Num 4, Num 5, Num 6, Num 7, Num 8, Num 9, Num 3]\<rparr>)]
     = Inr ''classification'' \<and>
   detect_problem_type ''y''
     [(''y'', \<lparr>dtype = Float64,
               cells = [Num 0, Num 1, Num 2, Num 3, Num 4, Num 5, Num 6, Num 7, Num 8, Num 9, Num 10]\<rparr>)]
     = Inr ''regression'' \<and>
   detect_problem_type ''y''
     [(''y'', \<lparr>dtype = Object,
               cells = [Str ''0'', Str ''1'', Str ''2'', Str ''3'', Str ''4'', Str ''5'', Str ''6'',
                        Str ''7'', Str ''8'', Str ''9'', Str ''10'']\<rparr>)]
     = Inr ''classification''"
proof -
  let ?x = "\<lparr>dtype = Object,
               cells = [Str ''a'', Str ''b'', Str ''a'', Str ''b'', Str ''a'', Str ''b'', Str ''a'',
                        Str ''b'', Str ''a'', Str ''b'', Str ''a'']\<rparr>"
  let ?ten = "\<lparr>dtype = Int64,
               cells = [Num 0, Num 1, Num 2, Num 3, Num 4, Num 5, Num 6, Num 7, Num 8, Num 9, Num 3]\<rparr>"
  let ?eleven = "\<lparr>dtype = Float64,
               cells = [Num 0, Num 1, Num 2, Num 3, Num 4, Num 5, Num 6, Num 7, Num 8, Num 9, Num 10]\<rparr>"
  let ?strs = "\<lparr>dtype = Object,
               cells = [Str ''0'', Str ''1'', Str ''2'', Str ''3'', Str ''4'', Str ''5'', Str ''6'',
                        Str ''7'', Str ''8'', Str ''9'', Str ''10'']\<rparr>"
  have a: "getitem [(''x'', ?x), (''y'', ?ten)] ''y'' = Inr ?ten"
    by (simp add: getitem_def)
  have b: "getitem [(''y'', ?eleven)] ''y'' = Inr ?eleven"
    by (simp add: getitem_def)
  have c: "getitem [(''y'', ?strs)] ''y'' = Inr ?strs"
    by (simp add: getitem_def)
  have ten: "card (set (cells ?ten)) = 10" by (simp add: card_insert_if)
  have eleven: "card (set (cells ?eleven)) = 11" by (simp add: card_insert_if)
  show ?thesis
    using detect_problem_type_rule [OF a] detect_problem_type_rule [OF b]
      detect_problem_type_rule [OF c]
    unfolding ten eleven by simp
qed

text \<open>
  The claim as it was stated fails: a target of the string dtype, or of dtype
  \<open>datetime64\<close>, is not numeric, and with 11 distinct values the answer is "regression".
\<close>

theorem detect_problem_type_non_numeric_counterexample:
  "\<not> is_number StringDtype \<and> \<not> is_number Datetime64 \<and>
   detect_problem_type ''y''
     [(''y'', \<lparr>dtype = StringDtype,
               cells = [Str ''a'', Str ''b'', Str ''c'', Str ''d'', Str ''e'', Str ''f'', Str ''g'',
                        Str ''h'', Str ''i'', Str ''j'', Str ''k'']\<rparr>)]
     = Inr ''regression'' \<and>
   detect_problem_type ''y''
     [(''y'', \<lparr>dtype = Datetime64,
               cells = [Time 0, Time 1, Time 2, Time 3, Time 4, Time 5, Time 6, Time 7, Time 8,
                        Time 9, Time 10]\<rparr>)]
     = Inr ''regression''"
  by (simp add: is_number_def detect_problem_type_def getitem_def unique_def)



lemma getitem_Inr:
  assumes "getitem df name = Inr s"
  shows "\<exists>c. filter (\<lambda>c. fst c = name) df = [c] \<and> snd c = s"
proof (cases "filter (\<lambda>c. fst c = name) df")
  case Nil
  with assms show ?thesis by (simp add: getitem_def)
next
  case (Cons c cs)
  with assms show ?thesis by (cases cs) (simp_all add: getitem_def)
qed

lemma getitem_label:
  assumes "getitem df name = Inr s"
  shows "name \<in> set (columns df)"
proof -
  from assms obtain c where "filter (\<lambda>c. fst c = name) df = [c]"
    using getitem_Inr by blast
  then have "c \<in> set (filter (\<lambda>c. fst c = name) df)" by simp
  then show ?thesis by (auto simp: columns_def)
qed

lemma remove1_single:
  "length (filter (\<lambda>x. x = t) xs) \<le> 1 \<Longrightarrow> t \<notin> set (remove1 t xs)"
proof (induction xs)
  case Nil
  show ?case by simp
next
  case (Cons x xs)
  show ?case
  proof (cases "x = t")
    case True
    with Cons.prems have "filter (\<lambda>x. x = t) xs = []" by simp
    then have "t \<notin> set xs" by (auto simp: filter_empty_conv)
    with True show ?thesis by simp
  next
    case False
    with Cons show ?thesis by simp
  qed
qed

lemma length_filter_label:
  "length (filter (\<lambda>x. x = t) (map fst (filter P df))) \<le> length (filter (\<lambda>c. fst c = t) df)"
  by (induction df) auto

lemma target_once_over_threshold:
  assumes "getitem df target_column = Inr target_data"
  shows "length (filter (\<lambda>x. x = target_column) (map fst (filter P df))) \<le> 1"
proof -
  from assms obtain c where "filter (\<lambda>c. fst c = target_column) df = [c]"
    using getitem_Inr by blast
  with length_filter_label [of target_column P df] show ?thesis by simp
qed

lemma set_cols_to_drop:
  assumes "getitem df target_column = Inr target_data"
  shows "set (cols_to_drop fl df target_column t) =
           fst ` set (filter (\<lambda>c. exceeds (missing_fraction fl (snd c)) t) df) - {target_column}"
proof -
  let ?cols = "map fst (filter (\<lambda>c. exceeds (missing_fraction fl (snd c)) t) df)"
  from assms have notin: "target_column \<notin> set (remove1 target_column ?cols)"
    by (intro remove1_single target_once_over_threshold)
  have other: "\<And>x. x \<noteq> target_column \<Longrightarrow>
                 x \<in> set (remove1 target_column ?cols) \<longleftrightarrow> x \<in> set ?cols"
    by (rule in_set_remove1)
  have removed: "set (remove1 target_column ?cols) = set ?cols - {target_column}"
  proof (rule set_eqI)
    fix x
    show "x \<in> set (remove1 target_column ?cols) \<longleftrightarrow> x \<in> set ?cols - {target_column}"
    proof (cases "x = target_column")
      case True
      with notin show ?thesis by simp
    next
      case False
      with other [OF False] show ?thesis by simp
    qed
  qed
  show ?thesis
  proof (cases "target_column \<in> set ?cols")
    case True
    then have "cols_to_drop fl df target_column t = remove1 target_column ?cols"
      by (simp add: cols_to_drop_def)
    with removed show ?thesis by simp
  next
    case False
    then have "cols_to_drop fl df target_column t = ?cols"
      by (simp add: cols_to_drop_def)
    with False show ?thesis by simp
  qed
qed

lemma label_over_threshold:
  "fst c \<in> fst ` set (filter P df) \<longleftrightarrow> (\<exists>c' \<in> set df. fst c' = fst c \<and> P c')"
proof
  assume "fst c \<in> fst ` set (filter P df)"
  then obtain c' where "c' \<in> set (filter P df)" and "fst c = fst c'" by (rule imageE)
  then have "c' \<in> set df" and "fst c' = fst c \<and> P c'" by simp_all
  then show "\<exists>c' \<in> set df. fst c' = fst c \<and> P c'" by (rule bexI [rotated])
next
  assume "\<exists>c' \<in> set df. fst c' = fst c \<and> P c'"
  then obtain c' where "c' \<in> set df" and "fst c' = fst c" and "P c'" by blast
  then have "c' \<in> set (filter P df)" and "fst c = fst c'" by simp_all
  then show "fst c \<in> fst ` set (filter P df)" by (rule image_eqI [rotated])
qed

lemma columns_drop_missing:
  assumes "getitem df target_column = Inr target_data"
  shows "columns (drop_missing fl df target_column t) =
           map fst (filter (\<lambda>c. fst c = target_column \<or>
              \<not> (\<exists>c' \<in> set df. fst c' = fst c \<and> exceeds (missing_fraction fl (snd c')) t)) df)"
proof -
  have keep: "(fst c \<notin> set (cols_to_drop fl df target_column t)) =
        (fst c = target_column \<or>
          \<not> (\<exists>c' \<in> set df. fst c' = fst c \<and> exceeds (missing_fraction fl (snd c')) t))" for c
    unfolding set_cols_to_drop [OF assms]
      label_over_threshold [of c "\<lambda>c. exceeds (missing_fraction fl (snd c)) t" df, symmetric]
    by blast
  have "filter (\<lambda>c. fst c \<notin> set (cols_to_drop fl df target_column t)) df =
        filter (\<lambda>c. fst c = target_column \<or>
              \<not> (\<exists>c' \<in> set df. fst c' = fst c \<and> exceeds (missing_fraction fl (snd c')) t)) df"
    by (rule filter_cong [OF refl]) (rule keep)
  then show ?thesis
    by (simp only: drop_missing_def drop_columns_def columns_def)
qed

lemma columns_setitem:
  "columns (setitem df col s) =
     (if col \<in> set (columns df) then columns df else columns df @ [col])"
proof -
  have "map fst (map (\<lambda>c. if fst c = col then (col, s) else c) df) = map fst df"
    by (induction df) auto
  then show ?thesis by (simp add: setitem_def columns_def)
qed

lemma columns_fold_setitem:
  "set (map fst ps) \<subseteq> set (columns d) \<Longrightarrow>
   columns (fold (\<lambda>(col, s) d. setitem d col s) ps d) = columns d"
proof (induction ps arbitrary: d)
  case Nil
  show ?case by simp
next
  case (Cons p ps)
  obtain col s where p: "p = (col, s)" by (cases p)
  with Cons.prems have col: "col \<in> set (columns d)" by simp
  then have same: "columns (setitem d col s) = columns d" by (simp add: columns_setitem)
  with Cons.prems have "set (map fst ps) \<subseteq> set (columns (setitem d col s))" by simp
  then have "columns (fold (\<lambda>(col, s) d. setitem d col s) ps (setitem d col s)) =
             columns (setitem d col s)"
    by (rule Cons.IH)
  with same show ?case by (simp add: p)
qed

lemma columns_setitems:
  assumes "setitems df cols ss = Inr df'" and "set cols \<subseteq> set (columns df)"
  shows "columns df' = columns df"
proof -
  from assms(1) have df': "df' = fold (\<lambda>(col, s) d. setitem d col s) (zip cols ss) df"
    by (simp add: setitems_def split: if_splits)
  have "set (map fst (zip cols ss)) \<subseteq> set cols"
    by (auto dest: set_zip_leftD)
  with assms(2) have "set (map fst (zip cols ss)) \<subseteq> set (columns df)" by blast
  then show ?thesis unfolding df' by (rule columns_fold_setitem)
qed

lemma getitems_labels:
  "getitems df cols = Inr ss \<Longrightarrow> set cols \<subseteq> set (columns df)"
proof (induction cols arbitrary: ss)
  case Nil
  show ?case by simp
next
  case (Cons col cols)
  from Cons.prems obtain s ss' where "getitem df col = Inr s" and "getitems df cols = Inr ss'"
    by (auto split: sum.splits)
  with Cons.IH show ?case by (auto dest: getitem_label)
qed

lemma columns_fill_missing:
  "fill_missing lib cols df = Inr df' \<Longrightarrow> columns df' = columns df"
proof (induction cols arbitrary: df)
  case Nil
  then show ?case by simp
next
  case (Cons col cols)
  from Cons.prems obtain s s' where g: "getitem df col = Inr s"
    and rest: "fill_missing lib cols (setitem df col s') = Inr df'"
    by (auto split: sum.splits)
  from g have "col \<in> set (columns df)" by (rule getitem_label)
  then have "columns (setitem df col s') = columns df" by (simp add: columns_setitem)
  with Cons.IH [OF rest] show ?case by simp
qed

lemma columns_encode_categoricals:
  "encode_categoricals lib target_column cols (df, les) = Inr (df', les') \<Longrightarrow>
   columns df' = columns df"
proof (induction cols arbitrary: df les)
  case Nil
  then show ?case by simp
next
  case (Cons col cols)
  show ?case
  proof (cases "col \<in> set (columns df) \<and> col \<noteq> target_column")
    case True
    with Cons.prems obtain s le where
      rest: "encode_categoricals lib target_column cols
         (setitem df col s, dict_set les col le) = Inr (df', les')"
      by (auto split: sum.splits prod.splits)
    from True have "columns (setitem df col s) = columns df" by (simp add: columns_setitem)
    with Cons.IH [OF rest] show ?thesis by simp
  next
    case False
    with Cons.prems have "encode_categoricals lib target_column cols (df, les) = Inr (df', les')"
      by auto
    from Cons.IH [OF this] show ?thesis .
  qed
qed

lemma columns_scale_numericals:
  assumes "scale_numericals lib df cols = Inr (df', scaler)"
  shows "columns df' = columns df"
proof (cases "cols = []")
  case True
  with assms show ?thesis by (simp add: scale_numericals_def)
next
  case False
  with assms obtain ss ss' d scaled where
    g: "getitems df cols = Inr ss" and
    s1: "setitems df cols ss' = Inr d" and
    s2: "setitems d cols scaled = Inr df'"
    by (auto simp: scale_numericals_def split: sum.splits prod.splits)
  from g have sub: "set cols \<subseteq> set (columns df)" by (rule getitems_labels)
  with s1 have d: "columns d = columns df" by (rule columns_setitems)
  with sub have "set cols \<subseteq> set (columns d)" by simp
  with s2 have "columns df' = columns d" by (rule columns_setitems)
  with d show ?thesis by simp
qed

lemma columns_preprocess_data:
  assumes "preprocess_data lib fl df target_column categorical_columns numerical_columns
             missing_threshold = Inr (df', label_encoders, scaler)"
  shows "columns df' = columns (drop_missing fl df target_column missing_threshold)"
proof -
  let ?df1 = "drop_missing fl df target_column missing_threshold"
  from assms obtain df2 cats df3 les nums sc where
    f: "fill_missing lib (columns ?df1) ?df1 = Inr df2" and
    e: "encode_categoricals lib target_column cats (df2, []) = Inr (df3, les)" and
    s: "scale_numericals lib df3 nums = Inr (df', sc)"
    by (auto simp: preprocess_data_def Let_def split: sum.splits prod.splits)
  from columns_scale_numericals [OF s] columns_encode_categoricals [OF e]
    columns_fill_missing [OF f]
  show ?thesis by simp
qed

lemma scaler_scale_numericals:
  assumes "scale_numericals lib df cols = Inr (df', scaler)" and "cols \<noteq> []"
  shows "\<exists>sc. scaler = Some (cols, sc)"
  using assms
  by (auto simp: scale_numericals_def split: sum.splits prod.splits)

lemma preprocess_data_explicit_scaler:
  assumes "preprocess_data lib fl df target_column categorical_columns (Some cols) missing_threshold
             = Inr (df', label_encoders, scaler)"
    and "cols \<noteq> []"
  shows "\<exists>sc. scaler = Some (cols, sc)"
proof -
  from assms(1) obtain df3 where
    "scale_numericals lib df3 cols = Inr (df', scaler)"
    by (auto simp: preprocess_data_def Let_def numerical_selection_def
        split: sum.splits prod.splits)
  from this assms(2) show ?thesis by (rule scaler_scale_numericals)
qed

text \<open>
  Claim C1. Let the target name one column of the data frame. The pruning step of
  \<open>preprocess_data\<close> never lists the target among the columns to drop, whatever its
  missing fraction. Whenever \<open>preprocess_data\<close> returns, the returned frame has the target
  among its columns and has no column whose label belongs to a non-target column with a
  missing fraction over the threshold; its columns are, in order, the target and the
  columns whose label is carried by no column over the threshold.
\<close>

theorem target_survives_pruning:
  assumes "getitem df target_column = Inr target_data"
  shows "target_column \<notin> set (cols_to_drop fl df target_column missing_threshold) \<and>
         (preprocess_data lib fl df target_column categorical_columns numerical_columns
            missing_threshold = Inr (df', label_encoders, scaler) \<longrightarrow>
          target_column \<in> set (columns df') \<and>
          (\<forall>c \<in> set df. fst c \<noteq> target_column \<and>
               exceeds (missing_fraction fl (snd c)) missing_threshold \<longrightarrow>
               fst c \<notin> set (columns df')) \<and>
          columns df' =
            map fst (filter (\<lambda>c. fst c = target_column \<or>
                       \<not> (\<exists>c' \<in> set df. fst c' = fst c \<and>
                             exceeds (missing_fraction fl (snd c')) missing_threshold)) df))"
proof (intro conjI impI)
  show "target_column \<notin> set (cols_to_drop fl df target_column missing_threshold)"
    by (simp add: set_cols_to_drop [OF assms])
next
  assume ret: "preprocess_data lib fl df target_column categorical_columns numerical_columns
            missing_threshold = Inr (df', label_encoders, scaler)"
  have cols: "columns df' =
            map fst (filter (\<lambda>c. fst c = target_column \<or>
                       \<not> (\<exists>c' \<in> set df. fst c' = fst c \<and>
                             exceeds (missing_fraction fl (snd c')) missing_threshold)) df)"
    using columns_preprocess_data [OF ret] columns_drop_missing [OF assms] by simp
  then show "columns df' =
            map fst (filter (\<lambda>c. fst c = target_column \<or>
                       \<not> (\<exists>c' \<in> set df. fst c' = fst c \<and>
                             exceeds (missing_fraction fl (snd c')) missing_threshold)) df)" .
  from assms have "target_column \<in> set (columns df)" by (rule getitem_label)
  then obtain c where "c \<in> set df" and "fst c = target_column"
    by (auto simp: columns_def)
  then show "target_column \<in> set (columns df')"
    unfolding cols by force
  show "\<forall>c \<in> set df. fst c \<noteq> target_column \<and>
               exceeds (missing_fraction fl (snd c)) missing_threshold \<longrightarrow>
               fst c \<notin> set (columns df')"
    unfolding cols by auto
qed

theorem target_survives_pruning_witness:
  "preprocess_data
     \<lparr>mode = (\<lambda>s. []),
      median = (\<lambda>s. if cells s = [Num 1, Num 3] then Inr (Num 2) else Inr NaN),
      fillna = (\<lambda>s v. Inr (s\<lparr>cells := map (\<lambda>c. if c = NaN then v else c) (cells s)\<rparr>)),
      astype_str = (\<lambda>s. []), le_fit_transform = (\<lambda>xs. ((), [])),
      sc_fit_transform = (\<lambda>ss. Inr ((), map (\<lambda>s. \<lparr>dtype = Float64, cells = [Num (- 1), Num 1]\<rparr>) ss))\<rparr>
     (\<lambda>q. q)
     [(''a'', \<lparr>dtype = Float64, cells = [Num 1, NaN]\<rparr>),
      (''y'', \<lparr>dtype = Float64, cells = [NaN, NaN]\<rparr>),
      (''c'', \<lparr>dtype = Float64, cells = [Num 1, Num 3]\<rparr>)]
     ''y'' None None (3 / 10) =
   Inr ([(''y'', \<lparr>dtype = Float64, cells = [NaN, NaN]\<rparr>),
         (''c'', \<lparr>dtype = Float64, cells = [Num (- 1), Num 1]\<rparr>)],
        [], Some ([''c''], ())) \<and>
   ''y'' \<notin> set (cols_to_drop (\<lambda>q. q)
     [(''a'', \<lparr>dtype = Float64, cells = [Num 1, NaN]\<rparr>),
      (''y'', \<lparr>dtype = Float64, cells = [NaN, NaN]\<rparr>),
      (''c'', \<lparr>dtype = Float64, cells = [Num 1, Num 3]\<rparr>)] ''y'' (3 / 10)) \<and>
   ''y'' \<in> set (columns [(''y'', \<lparr>dtype = Float64, cells = [NaN, NaN]\<rparr>),
         (''c'', \<lparr>dtype = Float64, cells = [Num (- 1), Num 1]\<rparr>)]) \<and>
   ''a'' \<notin> set (columns [(''y'', \<lparr>dtype = Float64, cells = [NaN, NaN]\<rparr>),
         (''c'', \<lparr>dtype = Float64, cells = [Num (- 1), Num 1]\<rparr>)])"
proof -
  let ?lib = "\<lparr>mode = (\<lambda>s. []),
      median = (\<lambda>s. if cells s = [Num 1, Num 3] then Inr (Num 2) else Inr NaN),
      fillna = (\<lambda>s v. Inr (s\<lparr>cells := map (\<lambda>c. if c = NaN then v else c) (cells s)\<rparr>)),
      astype_str = (\<lambda>s. []), le_fit_transform = (\<lambda>xs. ((), [])),
      sc_fit_transform = (\<lambda>ss. Inr ((), map (\<lambda>s. \<lparr>dtype = Float64, cells = [Num (- 1), Num 1]\<rparr>) ss))\<rparr>"
  let ?df = "[(''a'', \<lparr>dtype = Float64, cells = [Num 1, NaN]\<rparr>),
      (''y'', \<lparr>dtype = Float64, cells = [NaN, NaN]\<rparr>),
      (''c'', \<lparr>dtype = Float64, cells = [Num 1, Num 3]\<rparr>)]"
  let ?df' = "[(''y'', \<lparr>dtype = Float64, cells = [NaN, NaN]\<rparr>),
         (''c'', \<lparr>dtype = Float64, cells = [Num (- 1), Num 1]\<rparr>)]"
  have g: "getitem ?df ''y'' = Inr \<lparr>dtype = Float64, cells = [NaN, NaN]\<rparr>"
    by (simp add: getitem_def)
  let ?df1 = "[(''y'', \<lparr>dtype = Float64, cells = [NaN, NaN]\<rparr>),
      (''c'', \<lparr>dtype = Float64, cells = [Num 1, Num 3]\<rparr>)]"
  have drop: "drop_missing (\<lambda>q. q) ?df ''y'' (3 / 10) = ?df1"
    by (simp add: drop_missing_def drop_columns_def cols_to_drop_def missing_fraction_def
        exceeds_def isnull_def)
  have fill: "fill_missing ?lib (columns ?df1) ?df1 = Inr ?df1"
    by (simp add: columns_def getitem_def setitem_def fill_value_def)
  have cats: "select_dtypes is_categorical ?df1 = []"
    by (simp add: select_dtypes_def is_categorical_def)
  have nums: "select_dtypes is_number ?df1 = [''y'', ''c'']"
    by (simp add: select_dtypes_def is_number_def)
  have sel: "numerical_selection ?df1 ''y'' None = [''c'']"
    by (simp add: numerical_selection_def nums)
  have scale: "scale_numericals ?lib ?df1 [''c''] = Inr (?df', Some ([''c''], ()))"
    by (simp add: scale_numericals_def getitem_def setitems_def setitem_def columns_def
        replace_inf_def)
  have ret: "preprocess_data ?lib (\<lambda>q. q) ?df ''y'' None None (3 / 10) =
             Inr (?df', [], Some ([''c''], ()))"
    by (simp add: preprocess_data_def drop fill cats sel scale)
  note th = target_survives_pruning [OF g, of "\<lambda>q. q" "3 / 10" ?lib None None ?df' "[]"
      "Some ([''c''], ())"]
  have a: "''y'' \<notin> set (cols_to_drop (\<lambda>q. q) ?df ''y'' (3 / 10))"
    by (rule th [THEN conjunct1])
  have b: "''y'' \<in> set (columns ?df')"
    by (rule th [THEN conjunct2, THEN mp, OF ret, THEN conjunct1])
  have c: "''a'' \<notin> set (columns ?df')"
    by (simp add: columns_def)
  from ret a b c show ?thesis by (intro conjI)
qed

lemma numerical_selection_auto:
  assumes "distinct (columns df)"
  shows "target_column \<notin> set (numerical_selection df target_column None)"
proof -
  from assms have "distinct (select_dtypes is_number df)"
    by (simp add: select_dtypes_def columns_def distinct_map_filter)
  then have "set (remove1 target_column (select_dtypes is_number df)) =
             set (select_dtypes is_number df) - {target_column}"
    by (rule set_remove1_eq)
  then show ?thesis
    by (simp add: numerical_selection_def Let_def)
qed

lemma numerical_selection_explicit:
  "numerical_selection df target_column (Some cols) = cols"
  by (simp add: numerical_selection_def)

text \<open>
  Claim C6. With the numeric columns detected from the dtypes the target is taken out of
  the selection (\<open>numerical_selection_auto\<close>), but a list supplied by the caller is used
  as it is (\<open>numerical_selection_explicit\<close>). On the frame \<open>x = [1.0, 3.0]\<close>,
  \<open>y = [0, 1]\<close> with target \<open>y\<close> and \<open>numerical_columns = ['x', 'y']\<close> the target is
  handed to the scaler and comes back standardized: the scaler is fitted on both labels and
  the labels \<open>0, 1\<close> of the target become \<open>-1, 1\<close>. (Whatever the library does, a
  call that returns has fitted the scaler on the caller's list:
  \<open>preprocess_data_explicit_scaler\<close>.) The frame has no missing cell, so
  the fill values are never used; \<open>fillna\<close> replaces the missing cells and the scaler
  returns the standardized values \<open>-1, 1\<close> that both columns of this frame have.
\<close>

theorem explicit_numerical_columns_scale_target:
  "preprocess_data
     \<lparr>mode = (\<lambda>s. []), median = (\<lambda>s. Inr NaN),
      fillna = (\<lambda>s v. Inr (s\<lparr>cells := map (\<lambda>c. if c = NaN then v else c) (cells s)\<rparr>)),
      astype_str = (\<lambda>s. []), le_fit_transform = (\<lambda>xs. ((), [])),
      sc_fit_transform = (\<lambda>ss. Inr ((), map (\<lambda>s. \<lparr>dtype = Float64, cells = [Num (- 1), Num 1]\<rparr>) ss))\<rparr>
     (\<lambda>q. q)
     [(''x'', \<lparr>dtype = Float64, cells = [Num 1, Num 3]\<rparr>),
      (''y'', \<lparr>dtype = Int64, cells = [Num 0, Num 1]\<rparr>)]
     ''y'' None (Some [''x'', ''y'']) (3 / 10) =
   Inr ([(''x'', \<lparr>dtype = Float64, cells = [Num (- 1), Num 1]\<rparr>),
         (''y'', \<lparr>dtype = Float64, cells = [Num (- 1), Num 1]\<rparr>)],
        [], Some ([''x'', ''y''], ()))"
  by (simp add: preprocess_data_def drop_missing_def drop_columns_def cols_to_drop_def
      missing_fraction_def exceeds_def isnull_def columns_def getitem_def setitem_def
      fill_value_def select_dtypes_def is_categorical_def numerical_selection_def
      scale_numericals_def setitems_def replace_inf_def)

text \<open>
  Claim C3. For the problem types "classification" and "regression" and all row and feature
  counts, \<open>suggest_models\<close> returns the entries of the policy table's list for the size
  bucket (small below 1000 rows, medium below 10000, large otherwise) together with those
  of the list for the dimensionality bucket (high above 50 features, low otherwise), each
  once. The model is a function of its three arguments: equal inputs give equal results
  and nothing else is read or written.
\<close>

theorem suggest_models_union:
  assumes "problem_type \<in> {''classification'', ''regression''}"
  shows "\<exists>table by_size by_dim ms.
           dict_getitem suggestions problem_type = Inr table \<and>
           dict_getitem table
             (if dataset_size < 1000 then ''small_dataset''
              else if dataset_size < 10000 then ''medium_dataset'' else ''large_dataset'')
             = Inr by_size \<and>
           dict_getitem table
             (if feature_count > 50 then ''high_dimensions'' else ''low_dimensions'') = Inr by_dim \<and>
           suggest_models problem_type dataset_size feature_count = Inr ms \<and>
           set ms = set by_size \<union> set by_dim \<and> distinct ms"
proof -
  have set_ls: "\<And>xs :: string list. set (list_set xs) = set xs"
    by (simp add: list_set_def unique_def set_unique_from)
  have dist_ls: "\<And>xs :: string list. distinct (list_set xs)"
    by (simp add: list_set_def unique_def distinct_unique_from)
  from assms obtain table where t: "dict_getitem suggestions problem_type = Inr table"
    and keys: "map fst table = [''small_dataset'', ''medium_dataset'', ''large_dataset'',
                               ''high_dimensions'', ''low_dimensions'']"
    by (auto simp: dict_getitem_def suggestions_def)
  have "size_category dataset_size \<in> set (map fst table)"
    unfolding keys by (simp add: size_category_def)
  then obtain by_size where s: "dict_getitem table (size_category dataset_size) = Inr by_size"
    by (cases "map_of table (size_category dataset_size)")
       (auto simp: dict_getitem_def map_of_eq_None_iff)
  have "dim_category feature_count \<in> set (map fst table)"
    unfolding keys by (simp add: dim_category_def)
  then obtain by_dim where d: "dict_getitem table (dim_category feature_count) = Inr by_dim"
    by (cases "map_of table (dim_category feature_count)")
       (auto simp: dict_getitem_def map_of_eq_None_iff)
  from t s d have "suggest_models problem_type dataset_size feature_count
                   = Inr (list_set (by_size @ by_dim))"
    by (simp add: suggest_models_def)
  with t s d show ?thesis
    by (auto simp: set_ls dist_ls size_category_def dim_category_def)
qed

theorem suggest_models_union_witness:
  "\<exists>ms. suggest_models ''classification'' 500 20 = Inr ms \<and>
        set ms = {''logistic_regression'', ''decision_tree'', ''knn'', ''ada_boost''} \<and>
        distinct ms"
proof -
  have "''classification'' \<in> {''classification'', ''regression''}" by simp
  from suggest_models_union [OF this, of 500 20] show ?thesis
    by (auto simp: dict_getitem_def suggestions_def)
qed

lemma detect_problem_type_values:
  assumes "getitem df target_column = Inr target_data"
  shows "\<exists>problem_type. detect_problem_type target_column df = Inr problem_type \<and>
           problem_type \<in> {''classification'', ''regression''}"
  using assms by (simp add: detect_problem_type_def)

lemma suggest_models_total:
  assumes "problem_type \<in> {''classification'', ''regression''}"
  shows "\<exists>ms. suggest_models problem_type dataset_size feature_count = Inr ms"
  using assms
  by (auto simp: suggest_models_def dict_getitem_def suggestions_def size_category_def
      dim_category_def)

text \<open>
  Claim C4. When the advisory collaborator raises an exception (the handler is
  \<open>except Exception\<close>), for a data frame with distinct column labels one of which is the
  target, \<open>get_intelligent_model_suggestions\<close> does not raise: it prints the failure and
  returns the heuristic fallback, the models of \<open>suggest_models\<close> for the problem type of
  \<open>detect_problem_type\<close>, with the analysis field carrying the entry \<open>error\<close>.
\<close>

theorem advisory_failure_falls_back:
  assumes "model_selector df target_column = Inl e"
    and "distinct (columns df)"
    and "target_column \<in> set (columns df)"
  shows "\<exists>problem_type ms.
           detect_problem_type target_column df = Inr problem_type \<and>
           suggest_models problem_type (len df) (int (length (columns df)) - 1) = Inr ms \<and>
           get_intelligent_model_suggestions model_selector df target_column =
             ([''Error in intelligent model selection: '' @ e],
              Inr \<lparr>recommended_models = ms,
                   analysis = [(''error'', ''Intelligent selection failed, using fallback'')],
                   evaluation = [],
                   best_model = ''random_forest'',
                   confidence = 1 / 2\<rparr>)"
proof -
  from assms(2,3) obtain s where "getitem df target_column = Inr s"
    using getitem_present by blast
  then obtain problem_type where pt: "detect_problem_type target_column df = Inr problem_type"
    and "problem_type \<in> {''classification'', ''regression''}"
    using detect_problem_type_values by blast
  then obtain ms where
    ms: "suggest_models problem_type (len df) (int (length (columns df)) - 1) = Inr ms"
    using suggest_models_total by blast
  from assms(1) pt ms show ?thesis
    by (simp add: get_intelligent_model_suggestions_def)
qed

theorem advisory_failure_falls_back_witness:
  "snd (get_intelligent_model_suggestions (\<lambda>df t. Inl ''timeout'')
     [(''x'', \<lparr>dtype = Float64, cells = [Num 1, Num 3]\<rparr>),
      (''y'', \<lparr>dtype = Object, cells = [Str ''a'', Str ''b'']\<rparr>)] ''y'') =
   Inr \<lparr>recommended_models = [''logistic_regression'', ''decision_tree'', ''knn'', ''ada_boost''],
        analysis = [(''error'', ''Intelligent selection failed, using fallback'')],
        evaluation = [],
        best_model = ''random_forest'',
        confidence = 1 / 2\<rparr>"
proof -
  let ?df = "[(''x'', \<lparr>dtype = Float64, cells = [Num 1, Num 3]\<rparr>),
      (''y'', \<lparr>dtype = Object, cells = [Str ''a'', Str ''b'']\<rparr>)]"
  let ?sel = "\<lambda>(df :: dataframe) (t :: string). (Inl ''timeout'' :: string + suggestion)"
  have a: "?sel ?df ''y'' = Inl ''timeout''" by simp
  have b: "distinct (columns ?df)" by (simp add: columns_def)
  have c: "''y'' \<in> set (columns ?df)" by (simp add: columns_def)
  have pt: "detect_problem_type ''y'' ?df = Inr ''classification''"
    by (simp add: detect_problem_type_def getitem_def)
  have ms: "suggest_models ''classification'' (len ?df) (int (length (columns ?df)) - 1) =
            Inr [''logistic_regression'', ''decision_tree'', ''knn'', ''ada_boost'']"
    by (simp add: suggest_models_def dict_getitem_def suggestions_def size_category_def
        dim_category_def len_def columns_def list_set_def unique_def)
  from advisory_failure_falls_back [of ?sel ?df "''y''", OF a b c] pt ms show ?thesis
    by auto
qed

text \<open>
  Claim C5, as amended. The code has no error class of its own for an unknown model: when
  the model identifier is absent from the catalog for the problem type, \<open>train_model\<close>
  fails with the \<open>KeyError\<close> of the lookup \<open>self.models[problem_type][model_name]\<close>,
  before any model is constructed or fitted, and the failure is its result: nothing in
  \<open>train_model\<close> handles it. The \<open>KeyError\<close> carries the model identifier when the problem
  type is one of the catalog's two, and the problem type otherwise.
\<close>

theorem train_model_unknown_model:
  assumes "\<forall>catalog. map_of models problem_type = Some catalog \<longrightarrow> map_of catalog model_name = None"
  shows "train_model est start_time end_time model_name X_train y_train problem_type hyperparameters =
           Inl (KeyError (if problem_type \<in> {''classification'', ''regression''}
                          then model_name else problem_type))"
proof (cases "map_of models problem_type")
  case None
  then have "problem_type \<notin> {''classification'', ''regression''}"
    by (auto simp: models_def)
  with None show ?thesis
    by (simp add: train_model_def dict_getitem_def)
next
  case (Some catalog)
  then have "problem_type \<in> {''classification'', ''regression''}"
    by (auto simp: models_def split: if_splits)
  moreover from Some assms have "map_of catalog model_name = None" by simp
  ultimately show ?thesis using Some
    by (simp add: train_model_def dict_getitem_def)
qed

theorem train_model_unknown_model_witness:
  "train_model
     \<lparr>construct = (\<lambda>c p. Inr c), fit = (\<lambda>m (x :: unit) (y :: unit). Inr m),
      cross_val_mean = (\<lambda>m x y. Inr 0)\<rparr>
     0 1 ''linear_regression'' () () ''classification'' None =
     Inl (KeyError ''linear_regression'') \<and>
   train_model
     \<lparr>construct = (\<lambda>c p. Inr c), fit = (\<lambda>m (x :: unit) (y :: unit). Inr m),
      cross_val_mean = (\<lambda>m x y. Inr 0)\<rparr>
     0 1 ''ada_boost'' () () ''regression'' (Some []) =
     Inl (KeyError ''ada_boost'')"
proof -
  let ?est = "\<lparr>construct = (\<lambda>(c :: model_class) (p :: params). (Inr c :: error + model_class)),
               fit = (\<lambda>(m :: model_class) (x :: unit) (y :: unit). (Inr m :: error + model_class)),
               cross_val_mean = (\<lambda>(m :: model_class) (x :: unit) (y :: unit). (Inr 0 :: error + rat))\<rparr>"
  have a: "\<forall>catalog. map_of models ''classification'' = Some catalog \<longrightarrow>
             map_of catalog ''linear_regression'' = None"
    by (simp add: models_def)
  have b: "\<forall>catalog. map_of models ''regression'' = Some catalog \<longrightarrow>
             map_of catalog ''ada_boost'' = None"
    by (simp add: models_def)
  from train_model_unknown_model [OF a, of ?est 0 1 "()" "()" None]
    train_model_unknown_model [OF b, of ?est 0 1 "()" "()" "Some []"]
  show ?thesis by simp
qed

text \<open>
  The claim as it was stated fails: the exception raised for an unknown model is a
  \<open>KeyError\<close>, not an UnknownModelError, and an unknown problem type raises the same class
  of exception.
\<close>

theorem train_model_unknown_model_counterexample:
  "train_model
     \<lparr>construct = (\<lambda>c p. Inr c), fit = (\<lambda>m (x :: unit) (y :: unit). Inr m),
      cross_val_mean = (\<lambda>m x y. Inr 0)\<rparr>
     0 1 ''linear_regression'' () () ''classification'' None =
     Inl (KeyError ''linear_regression'') \<and>
   exception_class (KeyError ''linear_regression'') \<noteq> ''UnknownModelError'' \<and>
   train_model
     \<lparr>construct = (\<lambda>c p. Inr c), fit = (\<lambda>m (x :: unit) (y :: unit). Inr m),
      cross_val_mean = (\<lambda>m x y. Inr 0)\<rparr>
     0 1 ''random_forest'' () () ''clustering'' None =
     Inl (KeyError ''clustering'')"
  by (simp add: train_model_def dict_getitem_def models_def)

lemma search_space_none:
  assumes "model_name \<notin> {''random_forest'', ''xgboost'', ''lightgbm''}"
  shows "search_space smp history model_name = None"
  using assms by (simp add: search_space_def)

lemma objective_no_space:
  assumes "model_name \<notin> {''random_forest'', ''xgboost'', ''lightgbm''}"
  shows "objective est smp model_name X_train y_train problem_type history =
           Inr (\<lparr>trial_params = [], trial_value = 0\<rparr>, [])"
  using assms by (simp add: objective_def search_space_none)

lemma study_optimize_no_space:
  assumes "model_name \<notin> {''random_forest'', ''xgboost'', ''lightgbm''}"
  shows "study_optimize est smp model_name X_train y_train problem_type n (history, fitted) =
           Inr (history @ replicate n \<lparr>trial_params = [], trial_value = 0\<rparr>, fitted)"
proof (induction n arbitrary: history)
  case 0
  show ?case by simp
next
  case (Suc n)
  have "study_optimize est smp model_name X_train y_train problem_type (Suc n) (history, fitted) =
        study_optimize est smp model_name X_train y_train problem_type n
          (history @ [\<lparr>trial_params = [], trial_value = 0\<rparr>], fitted)"
    by (simp add: objective_no_space [OF assms])
  also have "\<dots> = Inr ((history @ [\<lparr>trial_params = [], trial_value = 0\<rparr>]) @
                       replicate n \<lparr>trial_params = [], trial_value = 0\<rparr>, fitted)"
    by (rule Suc.IH)
  finally show ?case by (simp add: replicate_app_Cons_same)
qed

lemma foldl_best_replicate:
  "foldl (\<lambda>best u. if trial_value u > trial_value best then u else best) t (replicate n t) = t"
  by (induction n) simp_all

lemma best_trial_replicate:
  "0 < n \<Longrightarrow> best_trial (replicate n t) = Some t"
  by (cases n) (simp_all add: foldl_best_replicate)

text \<open>
  Claim C8. For a model identifier other than \<open>random_forest\<close>, \<open>xgboost\<close> and
  \<open>lightgbm\<close>, every call of the objective returns the value zero without suggesting a
  parameter, looking the model up, constructing it or handing it to \<open>cross_val_score\<close>;
  a study of \<open>n\<close> trials finishes with \<open>n\<close> trials of value zero and no model fitted; and
  \<open>optimize_hyperparameters\<close> returns the empty parameter mapping whenever it runs at least
  one trial (with no trial at all the study has no best trial).
\<close>

theorem no_search_space_scores_zero:
  assumes "model_name \<notin> {''random_forest'', ''xgboost'', ''lightgbm''}"
  shows "objective est smp model_name X_train y_train problem_type history =
           Inr (\<lparr>trial_params = [], trial_value = 0\<rparr>, []) \<and>
         study_optimize est smp model_name X_train y_train problem_type n ([], []) =
           Inr (replicate n \<lparr>trial_params = [], trial_value = 0\<rparr>, []) \<and>
         optimize_hyperparameters est smp model_name X_train y_train problem_type n_trials =
           (if 0 < n_trials then Inr [] else Inl (ValueError ''No trials are completed yet.''))"
proof (intro conjI)
  show "objective est smp model_name X_train y_train problem_type history =
           Inr (\<lparr>trial_params = [], trial_value = 0\<rparr>, [])"
    using assms by (rule objective_no_space)
  show run: "\<And>n. study_optimize est smp model_name X_train y_train problem_type n ([], []) =
           Inr (replicate n \<lparr>trial_params = [], trial_value = 0\<rparr>, [])"
    using study_optimize_no_space [OF assms, of est smp X_train y_train problem_type _ "[]" "[]"]
    by simp
  show "optimize_hyperparameters est smp model_name X_train y_train problem_type n_trials =
           (if 0 < n_trials then Inr [] else Inl (ValueError ''No trials are completed yet.''))"
  proof (cases "0 < n_trials")
    case True
    then have "0 < nat n_trials" by simp
    then have "best_trial (replicate (nat n_trials) \<lparr>trial_params = [], trial_value = 0\<rparr>) =
               Some \<lparr>trial_params = [], trial_value = 0\<rparr>"
      by (rule best_trial_replicate)
    with True show ?thesis
      by (simp add: optimize_hyperparameters_def run)
  next
    case False
    then have "nat n_trials = 0" by simp
    with False show ?thesis
      by (simp add: optimize_hyperparameters_def)
  qed
qed

theorem no_search_space_scores_zero_witness:
  "optimize_hyperparameters
     \<lparr>construct = (\<lambda>c p. Inl (LibraryError ''TypeError'')),
      fit = (\<lambda>(m :: unit) (x :: unit) (y :: unit). Inl (LibraryError ''ValueError'')),
      cross_val_mean = (\<lambda>m x y. Inl (LibraryError ''ValueError''))\<rparr>
     \<lparr>suggest_int = (\<lambda>h name lo hi. lo), suggest_float = (\<lambda>h name lo hi. lo)\<rparr>
     ''svm'' () () ''classification'' 50 = Inr [] \<and>
   study_optimize
     \<lparr>construct = (\<lambda>c p. Inl (LibraryError ''TypeError'')),
      fit = (\<lambda>(m :: unit) (x :: unit) (y :: unit). Inl (LibraryError ''ValueError'')),
      cross_val_mean = (\<lambda>m x y. Inl (LibraryError ''ValueError''))\<rparr>
     \<lparr>suggest_int = (\<lambda>h name lo hi. lo), suggest_float = (\<lambda>h name lo hi. lo)\<rparr>
     ''svm'' () () ''classification'' 2 ([], []) =
     Inr ([\<lparr>trial_params = [], trial_value = 0\<rparr>, \<lparr>trial_params = [], trial_value = 0\<rparr>], [])"
proof -
  have a: "''svm'' \<notin> {''random_forest'', ''xgboost'', ''lightgbm''}" by simp
  let ?est = "\<lparr>construct = (\<lambda>c p. Inl (LibraryError ''TypeError'')),
      fit = (\<lambda>(m :: unit) (x :: unit) (y :: unit). Inl (LibraryError ''ValueError'')),
      cross_val_mean = (\<lambda>m x y. Inl (LibraryError ''ValueError''))\<rparr>"
  let ?smp = "\<lparr>suggest_int = (\<lambda>h name lo hi. lo), suggest_float = (\<lambda>h name lo hi. lo)\<rparr>"
  have r: "replicate 2 \<lparr>trial_params = [], trial_value = 0 :: rat\<rparr> =
           [\<lparr>trial_params = [], trial_value = 0\<rparr>, \<lparr>trial_params = [], trial_value = 0\<rparr>]"
    by (simp add: numeral_2_eq_2)
  from no_search_space_scores_zero [OF a, of ?est ?smp "()" "()" "''classification''" "[]" 2 50]
  show ?thesis unfolding r by simp
qed

text \<open>
  Claim C9. For a model that has neither \<open>feature_importances_\<close> nor \<open>coef_\<close>,
  \<open>get_feature_importance\<close> returns the empty mapping, whatever the feature names.
\<close>

theorem importance_not_applicable:
  assumes "feature_importances model = None" and "coef model = None"
  shows "get_feature_importance model feature_names = Inr []"
  using assms by (simp add: get_feature_importance_def)

theorem importance_not_applicable_witness:
  "get_feature_importance \<lparr>feature_importances = None, coef = None\<rparr> [''a'', ''b''] = Inr []"
  using importance_not_applicable [of "\<lparr>feature_importances = None, coef = None\<rparr>" "[''a'', ''b'']"]
  by simp

lemma dirname_no_slash:
  assumes "CHR ''/'' \<notin> set filepath"
  shows "dirname filepath = []"
proof -
  from assms have "\<forall>c \<in> set (rev filepath). c \<noteq> CHR ''/''" by auto
  then have "dropWhile (\<lambda>c. c \<noteq> CHR ''/'') (rev filepath) = []"
    by (simp only: dropWhile_eq_Nil_conv)
  then show ?thesis by (simp add: dirname_def)
qed

lemma save_model_bare_name:
  assumes "CHR ''/'' \<notin> set filepath"
  shows "save_model st fs model filepath = Inl (FileNotFoundError [])"
  using assms by (simp add: save_model_def makedirs_def dirname_no_slash)

text \<open>
  Claim C7. \<open>save_model\<close> first creates \<open>os.path.dirname(filepath)\<close>. For a path without
  a directory part, such as \<open>model.pkl\<close>, that name is empty and \<open>os.makedirs\<close> fails, so
  nothing is written and there is no artifact to load back.
\<close>

theorem save_model_bare_filename_fails:
  "save_model st fs model ''model.pkl'' = Inl (FileNotFoundError [])"
  by (simp add: save_model_def makedirs_def dirname_def)

end
